theory Spec2Isabelle
  imports Main
begin

section \<open>The benchmark notebook \<open>sandbox/ch-benchmark.ipynb\<close>\<close>

text \<open>
  The notebook holds one function, \<open>time_ch\<close>, and two timing loops:
  \<^verbatim>\<open>
  def time_ch(num_workers,
              get,
              shape=(48, 200, 200),
              chunks=(1, 200, 200),
              n_steps=100):
      generate_cahn_hilliard_data(shape,
                                  chunks=chunks,
                                  n_steps=n_steps)[1].compute(num_workers=num_workers,
                                                              get=get)

  for n_proc in (8, 4, 2, 1):
      print(n_proc, "thread(s)")
      %timeit time_ch(n_proc, dask.threaded.get)

  for n_proc in (8, 4, 2, 1):
      print(n_proc, "process(es)")
      %timeit time_ch(n_proc, dask.multiprocessing.get)
  \<close>
  Everything else the notebook calls lives outside it: the graph builder
  \<open>generate_cahn_hilliard_data\<close>, the schedulers \<open>dask.threaded.get\<close> and
  \<open>dask.multiprocessing.get\<close>, and the \<open>%timeit\<close> magic. The builder and the
  schedulers are parameters of the model. They may read and change an outside world
  \<open>'w\<close> (memory, random seeds, worker pools, the wall clock) and may raise an error of
  type \<open>'e\<close>; \<open>'g\<close> is the type of lazy arrays and \<open>'r\<close> the type of realized arrays.
\<close>

subsection \<open>Data\<close>

type_synonym shape = "int \<times> int \<times> int"

text \<open>What the notebook does that can be seen from outside, in the order it happens.\<close>

datatype 'g event =
    Generate shape shape int  \<comment> \<open>call of \<open>generate_cahn_hilliard_data(shape, chunks=, n_steps=)\<close>\<close>
  | Compute 'g int            \<comment> \<open>call of \<open>.compute(num_workers=, get=)\<close> on a lazy array\<close>
  | Timer_start               \<comment> \<open>\<open>%timeit\<close> reads the clock before a run of its statement\<close>
  | Timer_stop                \<comment> \<open>\<open>%timeit\<close> reads the clock after a run of its statement\<close>
  | Print_label int string    \<comment> \<open>\<open>print(n_proc, "thread(s)")\<close>\<close>
  | Print_best nat int        \<comment> \<open>the line \<open>%timeit\<close> prints: best of so many runs, a duration\<close>

text \<open>A Python value as far as \<open>time_ch\<close> can return one.\<close>

datatype 'r pyval = PyNone | PyArray 'r

text \<open>
  A collaborator takes the world and gives back an outcome (\<open>Inl\<close> an exception) and the
  new world. A piece of the notebook also gives the events it caused.
\<close>

type_synonym ('a, 'e, 'w) extern = "'w \<Rightarrow> ('e + 'a) \<times> 'w"

type_synonym ('a, 'g, 'e, 'w) prog = "'w \<Rightarrow> ('e + 'a) \<times> 'g event list \<times> 'w"

type_synonym ('g, 'e, 'w) generator = "shape \<Rightarrow> shape \<Rightarrow> int \<Rightarrow> ('g \<times> 'g, 'e, 'w) extern"

type_synonym ('g, 'r, 'e, 'w) scheduler = "'g \<Rightarrow> int \<Rightarrow> ('r, 'e, 'w) extern"

subsection \<open>Sequencing with exceptions\<close>

definition ret :: "'a \<Rightarrow> ('a, 'g, 'e, 'w) prog" where
  "ret a = (\<lambda>w. (Inr a, [], w))"

definition emit :: "'g event \<Rightarrow> (unit, 'g, 'e, 'w) prog" where
  "emit ev = (\<lambda>w. (Inr (), [ev], w))"

definition call :: "('a, 'e, 'w) extern \<Rightarrow> ('a, 'g, 'e, 'w) prog" where
  "call f = (\<lambda>w. case f w of (r, w') \<Rightarrow> (r, [], w'))"

text \<open>An exception in the first part skips the second part.\<close>

definition bind :: "('a, 'g, 'e, 'w) prog \<Rightarrow> ('a \<Rightarrow> ('b, 'g, 'e, 'w) prog) \<Rightarrow> ('b, 'g, 'e, 'w) prog" where
  "bind m f = (\<lambda>w. case m w of
       (Inl e, evs, w') \<Rightarrow> (Inl e, evs, w')
     | (Inr a, evs, w') \<Rightarrow> (case f a w' of (r, evs', w'') \<Rightarrow> (r, evs @ evs', w'')))"

subsection \<open>\<open>time_ch\<close>\<close>

definition default_shape :: shape where
  "default_shape = (48, 200, 200)"

definition default_chunks :: shape where
  "default_chunks = (1, 200, 200)"

definition default_n_steps :: int where
  "default_n_steps = 100"

text \<open>
  \<open>generate_cahn_hilliard_data\<close> is a global name of the notebook, so it is the first
  parameter here; the others are those of the source. The call returns a pair, \<open>[1]\<close>
  takes its second element, and \<open>.compute(num_workers=num_workers, get=get)\<close> hands that
  lazy array to the scheduler \<open>get\<close> with the keyword \<open>num_workers\<close>. The body has no
  \<open>return\<close>: the realized array is dropped and the call gives \<open>None\<close>.
\<close>

definition time_ch ::
  "('g, 'e, 'w) generator \<Rightarrow> int \<Rightarrow> ('g, 'r, 'e, 'w) scheduler \<Rightarrow> shape \<Rightarrow> shape \<Rightarrow> int
     \<Rightarrow> ('r pyval, 'g, 'e, 'w) prog" where
  "time_ch generate_cahn_hilliard_data num_workers get shape chunks n_steps =
     bind (emit (Generate shape chunks n_steps)) (\<lambda>_.
     bind (call (generate_cahn_hilliard_data shape chunks n_steps)) (\<lambda>data.
     bind (emit (Compute (snd data) num_workers)) (\<lambda>_.
     bind (call (get (snd data) num_workers)) (\<lambda>response.
     ret PyNone))))"

subsection \<open>The timing facility\<close>

text \<open>
  Modelled from the spec: the \<open>%timeit\<close> magic belongs to IPython and is not among the
  sources. The spec describes it as the timing facility, which runs a zero-argument
  callable \<open>repetitions\<close> times and returns the minimum wall-clock duration; a run that
  raises ends the measurement with that exception. The statement handed to \<open>%timeit\<close>
  is the text after it on the line. The wall clock is read off the world by \<open>clock\<close>.
\<close>

definition timed :: "('w \<Rightarrow> int) \<Rightarrow> ('a, 'g, 'e, 'w) prog \<Rightarrow> (int, 'g, 'e, 'w) prog" where
  "timed clock stmt = (\<lambda>w.
     bind (emit Timer_start) (\<lambda>_.
     bind stmt (\<lambda>_.
     bind (emit Timer_stop) (\<lambda>_. (\<lambda>w'.
     ret (clock w' - clock w) w')))) w)"

text \<open>
  Modelled from the spec: the repetitions of \<open>%timeit\<close>, one after the other; the
  first run that raises ends them.
\<close>

fun repeat_timed :: "nat \<Rightarrow> ('w \<Rightarrow> int) \<Rightarrow> ('a, 'g, 'e, 'w) prog \<Rightarrow> (int list, 'g, 'e, 'w) prog" where
  "repeat_timed 0 clock stmt = ret []"
| "repeat_timed (Suc k) clock stmt =
     bind (timed clock stmt) (\<lambda>d.
     bind (repeat_timed k clock stmt) (\<lambda>ds.
     ret (d # ds)))"

text \<open>
  Modelled from the spec: \<open>%timeit\<close> reduces the samples to their minimum (best of
  \<open>repetitions\<close>) and prints it. With no repetition there is no sample, and no line is
  printed.
\<close>

definition timeit :: "nat \<Rightarrow> ('w \<Rightarrow> int) \<Rightarrow> ('a, 'g, 'e, 'w) prog \<Rightarrow> (unit, 'g, 'e, 'w) prog" where
  "timeit repetitions clock stmt =
     bind (repeat_timed repetitions clock stmt) (\<lambda>samples.
     case samples of
       [] \<Rightarrow> ret ()
     | d # ds \<Rightarrow> emit (Print_best repetitions (fold min ds d)))"

subsection \<open>The two timing loops\<close>

text \<open>A \<open>for\<close> loop over a tuple; an exception in the body leaves the loop.\<close>

fun for_each :: "'a list \<Rightarrow> ('a \<Rightarrow> (unit, 'g, 'e, 'w) prog) \<Rightarrow> (unit, 'g, 'e, 'w) prog" where
  "for_each [] body = ret ()"
| "for_each (x # xs) body = bind (body x) (\<lambda>_. for_each xs body)"

text \<open>
  Both calls of \<open>time_ch\<close> pass two arguments, so \<open>shape\<close>, \<open>chunks\<close> and \<open>n_steps\<close>
  take their defaults.
\<close>

definition threaded_timings ::
  "('g, 'e, 'w) generator \<Rightarrow> ('w \<Rightarrow> int) \<Rightarrow> nat \<Rightarrow> ('g, 'r, 'e, 'w) scheduler
     \<Rightarrow> (unit, 'g, 'e, 'w) prog" where
  "threaded_timings generate_cahn_hilliard_data clock repetitions dask_threaded_get =
     for_each [8, 4, 2, 1] (\<lambda>n_proc.
       bind (emit (Print_label n_proc ''thread(s)'')) (\<lambda>_.
       timeit repetitions clock
         (time_ch generate_cahn_hilliard_data n_proc dask_threaded_get
            default_shape default_chunks default_n_steps)))"

definition multiprocessing_timings ::
  "('g, 'e, 'w) generator \<Rightarrow> ('w \<Rightarrow> int) \<Rightarrow> nat \<Rightarrow> ('g, 'r, 'e, 'w) scheduler
     \<Rightarrow> (unit, 'g, 'e, 'w) prog" where
  "multiprocessing_timings generate_cahn_hilliard_data clock repetitions dask_multiprocessing_get =
     for_each [8, 4, 2, 1] (\<lambda>n_proc.
       bind (emit (Print_label n_proc ''process(es)'')) (\<lambda>_.
       timeit repetitions clock
         (time_ch generate_cahn_hilliard_data n_proc dask_multiprocessing_get
            default_shape default_chunks default_n_steps)))"

text \<open>
  The notebook runs the threaded cell, then the multiprocessing cell. Each cell keeps its
  own outcome: an exception ends the cell it is raised in, and the next cell starts from
  the world the failed one left.
\<close>

definition notebook ::
  "('g, 'e, 'w) generator \<Rightarrow> ('w \<Rightarrow> int) \<Rightarrow> nat \<Rightarrow> ('g, 'r, 'e, 'w) scheduler
     \<Rightarrow> ('g, 'r, 'e, 'w) scheduler
     \<Rightarrow> 'w \<Rightarrow> (('e + unit) \<times> ('e + unit)) \<times> 'g event list \<times> 'w" where
  "notebook generate_cahn_hilliard_data clock repetitions dask_threaded_get dask_multiprocessing_get =
     (\<lambda>w.
       case threaded_timings generate_cahn_hilliard_data clock repetitions dask_threaded_get w of
         (r1, evs1, w1) \<Rightarrow>
       case multiprocessing_timings generate_cahn_hilliard_data clock repetitions
              dask_multiprocessing_get w1 of
         (r2, evs2, w2) \<Rightarrow> ((r1, r2), evs1 @ evs2, w2))"

subsection \<open>Reading the trace\<close>

definition outcome :: "'a \<times> 'b \<times> 'c \<Rightarrow> 'a" where
  "outcome x = fst x"

definition events :: "'a \<times> 'b \<times> 'c \<Rightarrow> 'b" where
  "events x = fst (snd x)"

definition world :: "'a \<times> 'b \<times> 'c \<Rightarrow> 'c" where
  "world x = snd (snd x)"

text \<open>
  A row of the report is a label line and the timing line that follows it: the worker
  count, the label and the best duration. A label line with no timing line after it
  is no row.
\<close>

type_synonym row = "int \<times> string \<times> int"

fun rows_from :: "(int \<times> string) option \<Rightarrow> 'g event list \<Rightarrow> row list" where
  "rows_from p [] = []"
| "rows_from p (Print_label n l # evs) = rows_from (Some (n, l)) evs"
| "rows_from (Some (n, l)) (Print_best k d # evs) = (n, l, d) # rows_from None evs"
| "rows_from None (Print_best k d # evs) = rows_from None evs"
| "rows_from p (_ # evs) = rows_from p evs"

definition report :: "'g event list \<Rightarrow> row list" where
  "report evs = rows_from None evs"

text \<open>
  The events inside each completed timer bracket: from a \<open>Timer_start\<close> to the next
  \<open>Timer_stop\<close>. A bracket that is never closed measured nothing.
\<close>

fun intervals_from :: "'g event list option \<Rightarrow> 'g event list \<Rightarrow> 'g event list list" where
  "intervals_from cur [] = []"
| "intervals_from cur (Timer_start # evs) = intervals_from (Some []) evs"
| "intervals_from (Some mid) (Timer_stop # evs) = mid # intervals_from None evs"
| "intervals_from None (Timer_stop # evs) = intervals_from None evs"
| "intervals_from (Some mid) (ev # evs) = intervals_from (Some (mid @ [ev])) evs"
| "intervals_from None (ev # evs) = intervals_from None evs"

definition timed_intervals :: "'g event list \<Rightarrow> 'g event list list" where
  "timed_intervals evs = intervals_from None evs"

text \<open>
  The scheduler backends, named as the spec names them, and the label each loop prints
  for its own.
\<close>

datatype scheduler_kind = THREADED | MULTIPROCESS

fun kind_label :: "scheduler_kind \<Rightarrow> string" where
  "kind_label THREADED = ''thread(s)''"
| "kind_label MULTIPROCESS = ''process(es)''"

text \<open>
  Modelled from the spec: the notebook defines no exception of its own and catches none;
  these are the errors of the spec's taxonomy, for collaborators to raise.
\<close>

datatype error =
    ConfigurationError
  | ExecutionError
  | WorkerFailure
  | BenchmarkError int scheduler_kind error

fun is_compute :: "'g event \<Rightarrow> bool" where
  "is_compute (Compute y n) = True"
| "is_compute _ = False"

fun is_printed :: "'g event \<Rightarrow> bool" where
  "is_printed (Print_label n l) = True"
| "is_printed (Print_best k d) = True"
| "is_printed _ = False"

text \<open>
  A timed interval that holds one whole call of \<open>time_ch\<close> with the default arguments:
  the graph construction, then the realization.
\<close>

fun whole_call :: "'g event list \<Rightarrow> bool" where
  "whole_call [Generate shape chunks n_steps, Compute y n] =
     (shape = default_shape \<and> chunks = default_chunks \<and> n_steps = default_n_steps)"
| "whole_call _ = False"

text \<open>The body of either loop, for the label and the scheduler of that loop.\<close>

definition trial ::
  "string \<Rightarrow> ('g, 'e, 'w) generator \<Rightarrow> ('w \<Rightarrow> int) \<Rightarrow> nat \<Rightarrow> ('g, 'r, 'e, 'w) scheduler \<Rightarrow> int
     \<Rightarrow> (unit, 'g, 'e, 'w) prog" where
  "trial label generate_cahn_hilliard_data clock repetitions get n_proc =
     bind (emit (Print_label n_proc label)) (\<lambda>_.
     timeit repetitions clock
       (time_ch generate_cahn_hilliard_data n_proc get
          default_shape default_chunks default_n_steps))"

text \<open>The cell that times a backend.\<close>

fun timing_cell ::
  "scheduler_kind \<Rightarrow> ('g, 'e, 'w) generator \<Rightarrow> ('w \<Rightarrow> int) \<Rightarrow> nat \<Rightarrow> ('g, 'r, 'e, 'w) scheduler
     \<Rightarrow> (unit, 'g, 'e, 'w) prog" where
  "timing_cell THREADED = threaded_timings"
| "timing_cell MULTIPROCESS = multiprocessing_timings"

section \<open>The graph builder\<close>

text \<open>
  Modelled from the spec: \<open>generate_cahn_hilliard_data\<close> is defined in the module
  \<open>fmks.data.cahn_hilliard\<close>, which is not among the sources; the notebook only calls
  it. The model follows the component \<open>ChunkedSimulationGraph\<close> of the spec: \<open>build\<close>
  checks the parameters, partitions the volume into a grid of chunk blocks and returns
  the dependency structure, with two outputs: the initial microstructure field and the
  final-step response field. A bad combination of shape, chunks and step count is a
  \<open>ConfigurationError\<close>. Building runs no step: the world is handed back as it came.

  The spec leaves the remainder policy open (padding, truncation or a ragged final
  chunk), so the policy is a parameter; \<open>No_remainder\<close> declares none and accepts only
  chunk sizes that divide the volume.
\<close>

datatype remainder_policy = No_remainder | Padding | Truncation | Ragged

text \<open>
  Modelled from the spec: the number of blocks of size \<open>c\<close> along an axis of length
  \<open>d\<close>, where \<open>0 < c \<le> d\<close>, under the remainder policy.
\<close>

definition blocks_along :: "remainder_policy \<Rightarrow> int \<Rightarrow> int \<Rightarrow> nat option" where
  "blocks_along policy d c =
     (if c dvd d then Some (nat (d div c))
      else case policy of
          No_remainder \<Rightarrow> None
        | Truncation \<Rightarrow> Some (nat (d div c))
        | Padding \<Rightarrow> Some (nat (d div c) + 1)
        | Ragged \<Rightarrow> Some (nat (d div c) + 1))"

text \<open>
  Modelled from the spec: the grid of blocks (\<open>VolumeShape\<close> partitioned by
  \<open>ChunkSpec\<close>), or \<open>None\<close> for a bad shape or chunk specification: every dimension
  of the volume is positive, every chunk dimension is positive and at most the volume's,
  and the chunks tile the volume under the policy.
\<close>

definition grid :: "remainder_policy \<Rightarrow> shape \<Rightarrow> shape \<Rightarrow> (nat \<times> nat \<times> nat) option" where
  "grid policy shape chunks =
     (case (shape, chunks) of ((d, h, w), (cd, ch, cw)) \<Rightarrow>
        if d \<le> 0 \<or> h \<le> 0 \<or> w \<le> 0 then None
        else if cd \<le> 0 \<or> ch \<le> 0 \<or> cw \<le> 0 then None
        else if cd > d \<or> ch > h \<or> cw > w then None
        else (case (blocks_along policy d cd, blocks_along policy h ch, blocks_along policy w cw) of
                (Some a, Some b, Some c) \<Rightarrow> Some (a, b, c)
              | _ \<Rightarrow> None))"

text \<open>
  Modelled from the spec: the task nodes of a \<open>ComputationGraph\<close> are the
  initialization of one chunk, one step update of one chunk, and the final assemblies of
  the two outputs. Chunks are numbered along the grid, row-major. A lazy array is a graph
  and the node that gives the array.
\<close>

datatype node =
    Init nat
  | Update nat nat
  | Assemble_microstructure
  | Assemble_response

record graph =
  nodes :: "node list"
  edges :: "(node \<times> node) list"  \<comment> \<open>\<open>(a, b)\<close>: node \<open>a\<close> needs the result of node \<open>b\<close>\<close>

record lazy_array =
  graph_of :: graph
  root :: node

text \<open>
  Modelled from the spec: a step update has edges to the previous-step nodes of the
  spatially adjacent blocks, those one block away along one axis.
\<close>

definition position :: "nat \<times> nat \<times> nat \<Rightarrow> nat \<Rightarrow> nat \<times> nat \<times> nat" where
  "position g i = (case g of (a, b, c) \<Rightarrow> (i div (b * c), (i div c) mod b, i mod c))"

definition adjacent :: "nat \<times> nat \<times> nat \<Rightarrow> nat \<times> nat \<times> nat \<Rightarrow> bool" where
  "adjacent p q =
     (case (p, q) of ((x, y, z), (x', y', z')) \<Rightarrow>
        (x = Suc x' \<or> x' = Suc x) \<and> y = y' \<and> z = z'
      \<or> x = x' \<and> (y = Suc y' \<or> y' = Suc y) \<and> z = z'
      \<or> x = x' \<and> y = y' \<and> (z = Suc z' \<or> z' = Suc z))"

definition n_chunks :: "nat \<times> nat \<times> nat \<Rightarrow> nat" where
  "n_chunks g = (case g of (a, b, c) \<Rightarrow> a * b * c)"

definition neighbours :: "nat \<times> nat \<times> nat \<Rightarrow> nat \<Rightarrow> nat list" where
  "neighbours g i = filter (\<lambda>j. adjacent (position g i) (position g j)) [0..<n_chunks g]"

text \<open>
  Modelled from the spec: the state a step update of chunk \<open>c\<close> at step \<open>t\<close> reads is
  that of step \<open>t - 1\<close>; each block is threaded through \<open>n_steps\<close> update nodes.
\<close>

definition previous :: "nat \<Rightarrow> nat \<Rightarrow> node" where
  "previous c t = (if t \<le> 1 then Init c else Update c (t - 1))"

definition step_nodes :: "nat \<times> nat \<times> nat \<Rightarrow> nat \<Rightarrow> node list" where
  "step_nodes g t = map (\<lambda>c. Update c t) [0..<n_chunks g]"

definition step_edges :: "nat \<times> nat \<times> nat \<Rightarrow> nat \<Rightarrow> (node \<times> node) list" where
  "step_edges g t =
     concat (map (\<lambda>c. (Update c t, previous c t)
                      # map (\<lambda>j. (Update c t, previous j t)) (neighbours g c))
                 [0..<n_chunks g])"

text \<open>
  Modelled from the spec: the graph of a grid and a step count. The assembly of the
  microstructure needs every initialization, that of the response every last update.
\<close>

definition task_graph :: "nat \<times> nat \<times> nat \<Rightarrow> nat \<Rightarrow> graph" where
  "task_graph g n_steps =
     \<lparr> nodes = map Init [0..<n_chunks g]
               @ concat (map (step_nodes g) [1..<Suc n_steps])
               @ [Assemble_microstructure, Assemble_response],
       edges = concat (map (step_edges g) [1..<Suc n_steps])
               @ map (\<lambda>c. (Assemble_microstructure, Init c)) [0..<n_chunks g]
               @ map (\<lambda>c. (Assemble_response, Update c n_steps)) [0..<n_chunks g] \<rparr>"

text \<open>
  Modelled from the spec: \<open>build\<close>, standing for \<open>generate_cahn_hilliard_data\<close>. It
  returns the pair of the microstructure and the response, as the notebook says of the
  function, and does not touch the world.
\<close>

definition build :: "remainder_policy \<Rightarrow> (lazy_array, error, 'w) generator" where
  "build policy shape chunks n_steps = (\<lambda>w.
     (case grid policy shape chunks of
        None \<Rightarrow> Inl ConfigurationError
      | Some g \<Rightarrow>
          if n_steps < 1 then Inl ConfigurationError
          else Inr (\<lparr> graph_of = task_graph g (nat n_steps), root = Assemble_microstructure \<rparr>,
                    \<lparr> graph_of = task_graph g (nat n_steps), root = Assemble_response \<rparr>),
      w))"

section \<open>The scheduler adapter\<close>

text \<open>
  Modelled from the spec: the schedulers \<open>dask.threaded.get\<close> and
  \<open>dask.multiprocessing.get\<close> are not among the sources; the notebook only passes them
  to \<open>time_ch\<close>. The model follows the component \<open>SchedulerAdapter\<close> of the spec:
  \<open>execute\<close> realizes a graph on the backend \<open>scheduler_kind\<close> with a pool of
  \<open>worker_count\<close> workers. It fails with \<open>ExecutionError\<close> if \<open>worker_count < 1\<close>, before
  any task runs, and with \<open>WorkerFailure\<close> when a task raises, whatever the cause. What
  the pool of a backend does with a graph and a positive number of workers is the
  parameter \<open>pool\<close>. Applied to a backend and a pool, \<open>execute\<close> is a scheduler that can be
  handed to \<open>time_ch\<close> as \<open>get\<close>.
\<close>

definition execute ::
  "scheduler_kind \<Rightarrow> (scheduler_kind \<Rightarrow> 'g \<Rightarrow> int \<Rightarrow> 'w \<Rightarrow> ('c + 'r) \<times> 'w)
     \<Rightarrow> ('g, 'r, error, 'w) scheduler" where
  "execute scheduler_kind pool graph worker_count = (\<lambda>w.
     if worker_count < 1 then (Inl ExecutionError, w)
     else (case pool scheduler_kind graph worker_count w of
             (Inl cause, w') \<Rightarrow> (Inl WorkerFailure, w')
           | (Inr field, w') \<Rightarrow> (Inr field, w')))"

section \<open>Sample collaborators\<close>

text \<open>
  Concrete collaborators to run the notebook on. The world is the wall clock, in
  seconds. The generator hands out two named lazy arrays and takes a second.
\<close>

definition sample_generate :: "(string, error, int) generator" where
  "sample_generate shape chunks n_steps = (\<lambda>w. (Inr (''microstructure'', ''response''), w + 1))"

text \<open>
  A scheduler with a pool of workers and perfect speed-up: sixteen seconds of work shared
  by the workers. It refuses a pool with no worker.
\<close>

definition sample_get :: "(string, string, error, int) scheduler" where
  "sample_get y num_workers = (\<lambda>w.
     if num_workers < 1 then (Inl ExecutionError, w)
     else (Inr (''realized '' @ y), w + 16 div num_workers))"

text \<open>
  The pools of the two backends, for \<open>execute\<close>: sixteen seconds of work shared by the
  workers, and one more second for a process pool, which passes its data by value.
\<close>

definition sample_pool :: "scheduler_kind \<Rightarrow> string \<Rightarrow> int \<Rightarrow> int \<Rightarrow> (string + string) \<times> int" where
  "sample_pool scheduler_kind y num_workers = (\<lambda>w.
     (Inr (''realized '' @ y),
      w + 16 div num_workers + (case scheduler_kind of THREADED \<Rightarrow> 0 | MULTIPROCESS \<Rightarrow> 1)))"

text \<open>A scheduler whose workers start failing thirty seconds into the session.\<close>

definition flaky_get :: "(string, string, error, int) scheduler" where
  "flaky_get y num_workers = (\<lambda>w.
     if w < 30 then (Inr (''realized '' @ y), w + 16 div num_workers)
     else (Inl WorkerFailure, w))"

text \<open>
  A scheduler for the task graphs of \<open>build\<close>. The world counts the step updates run
  so far; realizing an output runs every step update its graph holds, and gives the
  number of tasks. It refuses a pool with no worker.
\<close>

fun is_update :: "node \<Rightarrow> bool" where
  "is_update (Update c t) = True"
| "is_update _ = False"

definition counting_get :: "(lazy_array, nat, error, nat) scheduler" where
  "counting_get y num_workers = (\<lambda>w.
     if num_workers < 1 then (Inl ExecutionError, w)
     else (Inr (length (nodes (graph_of y))),
           w + length (filter is_update (nodes (graph_of y)))))"

section \<open>Properties of the notebook\<close>

subsection \<open>Unfolding the calls\<close>

lemma time_ch_unfold:
  "time_ch gen n get sh ch k w =
     (case gen sh ch k w of
        (Inl e, w1) \<Rightarrow> (Inl e, [Generate sh ch k], w1)
      | (Inr xy, w1) \<Rightarrow>
          (case get (snd xy) n w1 of
             (Inl e, w2) \<Rightarrow> (Inl e, [Generate sh ch k, Compute (snd xy) n], w2)
           | (Inr f, w2) \<Rightarrow> (Inr PyNone, [Generate sh ch k, Compute (snd xy) n], w2)))"
  by (simp add: time_ch_def bind_def emit_def call_def ret_def split: prod.splits sum.splits)

lemma timed_unfold:
  "timed clock stmt w =
     (case stmt w of
        (Inl e, evs, w') \<Rightarrow> (Inl e, Timer_start # evs, w')
      | (Inr a, evs, w') \<Rightarrow> (Inr (clock w' - clock w), Timer_start # evs @ [Timer_stop], w'))"
  by (simp add: timed_def bind_def emit_def ret_def split: prod.splits sum.splits)

subsection \<open>Lifting a property of traces through the notebook\<close>

lemma events_bind:
  "events (bind m f w) =
     (case m w of (Inl e, evs, w') \<Rightarrow> evs | (Inr a, evs, w') \<Rightarrow> evs @ events (f a w'))"
  by (simp add: bind_def events_def split: prod.splits sum.splits)

lemma events_bind_lift:
  assumes app: "\<And>a b. R a \<Longrightarrow> R b \<Longrightarrow> R (a @ b)"
    and m: "\<And>w. R (events (m w))"
    and f: "\<And>a w. R (events (f a w))"
  shows "R (events (bind m f w))"
proof (cases "m w")
  case (fields r evs w')
  have evs: "R evs" using m [of w] fields by (simp add: events_def)
  show ?thesis
  proof (cases r)
    case (Inl e)
    then show ?thesis using fields evs by (simp add: events_bind)
  next
    case (Inr a)
    then show ?thesis using fields app [OF evs f [of a w']] by (simp add: events_bind)
  qed
qed

lemma events_for_each_lift:
  assumes nil: "R []"
    and app: "\<And>a b. R a \<Longrightarrow> R b \<Longrightarrow> R (a @ b)"
    and body: "\<And>x w. R (events (body x w))"
  shows "R (events (for_each xs body w))"
proof (induction xs arbitrary: w)
  case Nil
  show ?case using nil by (simp add: ret_def events_def)
next
  case (Cons x xs)
  show ?case
    unfolding for_each.simps
    by (rule events_bind_lift [where R = R, OF app body Cons.IH])
qed

lemma events_repeat_timed_lift:
  assumes nil: "R []"
    and app: "\<And>a b. R a \<Longrightarrow> R b \<Longrightarrow> R (a @ b)"
    and run: "\<And>w. R (events (timed clock stmt w))"
  shows "R (events (repeat_timed k clock stmt w))"
proof (induction k arbitrary: w)
  case 0
  show ?case using nil by (simp add: ret_def events_def)
next
  case (Suc k)
  have ret: "\<And>ds w. R (events (ret ds w))"
    using nil by (simp add: ret_def events_def)
  have rest: "\<And>d w. R (events (bind (repeat_timed k clock stmt) (\<lambda>ds. ret (d # ds)) w))"
    by (rule events_bind_lift [where R = R, OF app Suc.IH ret])
  show ?case
    unfolding repeat_timed.simps
    by (rule events_bind_lift [where R = R, OF app run rest])
qed

lemma events_timeit_lift:
  assumes nil: "R []"
    and app: "\<And>a b. R a \<Longrightarrow> R b \<Longrightarrow> R (a @ b)"
    and best: "\<And>k d. R [Print_best k d]"
    and run: "\<And>w. R (events (timed clock stmt w))"
  shows "R (events (timeit k clock stmt w))"
proof -
  have line: "\<And>samples w. R (events ((case samples of [] \<Rightarrow> ret ()
        | d # ds \<Rightarrow> emit (Print_best k (fold min ds d))) w))"
    using nil best by (simp add: ret_def emit_def events_def split: list.splits)
  show ?thesis
    unfolding timeit_def
    by (rule events_bind_lift [where R = R, OF app events_repeat_timed_lift [where R = R, OF nil app run] line])
qed

lemma events_timed_time_ch_lift:
  assumes "R [Timer_start, Generate sh ch k]"
    and "\<And>y. R [Timer_start, Generate sh ch k, Compute y n]"
    and "\<And>y. R [Timer_start, Generate sh ch k, Compute y n, Timer_stop]"
  shows "R (events (timed clock (time_ch gen n get sh ch k) w))"
  using assms
  by (simp add: timed_unfold time_ch_unfold events_def split: prod.splits sum.splits)

lemma events_trial_lift:
  assumes nil: "R []"
    and app: "\<And>a b. R a \<Longrightarrow> R b \<Longrightarrow> R (a @ b)"
    and label: "\<And>n l. R [Print_label n l]"
    and best: "\<And>k d. R [Print_best k d]"
    and gen_fails: "\<And>n. R [Timer_start, Generate default_shape default_chunks default_n_steps]"
    and get_fails: "\<And>y n. R [Timer_start, Generate default_shape default_chunks default_n_steps,
                            Compute y n]"
    and run_ok: "\<And>y n. R [Timer_start, Generate default_shape default_chunks default_n_steps,
                         Compute y n, Timer_stop]"
  shows "R (events (trial l gen clock reps get n w))"
proof -
  have run: "\<And>w. R (events (timed clock
      (time_ch gen n get default_shape default_chunks default_n_steps) w))"
    by (rule events_timed_time_ch_lift [where R = R, OF gen_fails get_fails run_ok])
  have lab: "\<And>w. R (events (emit (Print_label n l) w))"
    using label by (simp add: emit_def events_def)
  show ?thesis
    unfolding trial_def
    by (rule events_bind_lift [where R = R, OF app lab
          events_timeit_lift [where R = R, OF nil app best run]])
qed

lemma threaded_timings_trial:
  "threaded_timings gen clock reps get = for_each [8, 4, 2, 1] (trial ''thread(s)'' gen clock reps get)"
  by (simp add: threaded_timings_def trial_def)

lemma multiprocessing_timings_trial:
  "multiprocessing_timings gen clock reps get =
     for_each [8, 4, 2, 1] (trial ''process(es)'' gen clock reps get)"
  by (simp add: multiprocessing_timings_def trial_def)

lemma events_notebook:
  "events (notebook gen clock reps tget mget w) =
     events (threaded_timings gen clock reps tget w)
     @ events (multiprocessing_timings gen clock reps mget
                 (world (threaded_timings gen clock reps tget w)))"
  by (simp add: notebook_def events_def world_def split: prod.splits)

lemma notebook_trace_induct:
  assumes nil: "R []"
    and app: "\<And>a b. R a \<Longrightarrow> R b \<Longrightarrow> R (a @ b)"
    and label: "\<And>n l. R [Print_label n l]"
    and best: "\<And>k d. R [Print_best k d]"
    and gen_fails: "\<And>n. R [Timer_start, Generate default_shape default_chunks default_n_steps]"
    and get_fails: "\<And>y n. R [Timer_start, Generate default_shape default_chunks default_n_steps,
                            Compute y n]"
    and run_ok: "\<And>y n. R [Timer_start, Generate default_shape default_chunks default_n_steps,
                         Compute y n, Timer_stop]"
  shows "R (events (notebook gen clock reps tget mget w))"
proof -
  have tr: "\<And>l get n w. R (events (trial l gen clock reps get n w))"
    by (rule events_trial_lift [where R = R, OF nil app label best gen_fails get_fails run_ok])
  have cell: "\<And>l get w. R (events (for_each [8, 4, 2, 1] (trial l gen clock reps get) w))"
    by (rule events_for_each_lift [where R = R, OF nil app tr])
  show ?thesis
    unfolding events_notebook threaded_timings_trial multiprocessing_timings_trial
    by (rule app [OF cell cell])
qed

lemma for_each_append:
  "for_each (xs @ ys) body w = bind (for_each xs body) (\<lambda>_. for_each ys body) w"
proof (induction xs arbitrary: w)
  case Nil
  show ?case by (simp add: bind_def ret_def split: prod.splits)
next
  case (Cons x xs)
  show ?case
    by (simp add: bind_def Cons.IH split: prod.splits sum.splits)
qed

lemma timing_cell_trial:
  "timing_cell kind gen clock reps get = for_each [8, 4, 2, 1] (trial (kind_label kind) gen clock reps get)"
  by (cases kind) (simp_all add: threaded_timings_trial multiprocessing_timings_trial)

subsection \<open>Timed intervals\<close>

lemma intervals_from_append:
  "\<exists>cur'. \<forall>rest. intervals_from cur (a @ rest) = intervals_from cur a @ intervals_from cur' rest"
proof (induction a arbitrary: cur)
  case Nil
  show ?case by auto
next
  case (Cons ev a)
  show ?case
  proof (cases cur)
    case None
    then show ?thesis using Cons.IH [of None] Cons.IH [of "Some []"] by (cases ev) auto
  next
    case (Some mid)
    then show ?thesis
      using Cons.IH [of None] Cons.IH [of "Some []"] Cons.IH [of "Some (mid @ [ev])"]
      by (cases ev) auto
  qed
qed

lemma intervals_from_printed:
  "intervals_from cur [Print_label n l] = []" "intervals_from cur [Print_best k d] = []"
  by (cases cur; simp)+

subsection \<open>Rows of the report\<close>

lemma rows_from_silent:
  "filter is_printed evs = [] \<Longrightarrow> rows_from p (evs @ rest) = rows_from p rest"
proof (induction evs arbitrary: p)
  case Nil
  show ?case by simp
next
  case (Cons ev evs)
  then show ?case by (cases ev; cases p) (auto split: if_splits)
qed

lemma rows_from_append:
  "\<exists>p'. \<forall>rest. rows_from p (a @ rest) = rows_from p a @ rows_from p' rest"
proof (induction a arbitrary: p)
  case Nil
  show ?case by auto
next
  case (Cons ev a)
  show ?case
  proof (cases p)
    case None
    then show ?thesis using Cons.IH by (cases ev) auto
  next
    case (Some nl)
    then show ?thesis using Cons.IH by (cases ev; cases nl) auto
  qed
qed

lemma silent_time_ch: "filter is_printed (events (time_ch gen n get sh ch k w)) = []"
  by (simp add: time_ch_unfold events_def split: prod.splits sum.splits)

lemma silent_repeat_timed:
  "filter is_printed (events (repeat_timed j clock (time_ch gen n get sh ch k) w)) = []"
proof (rule events_repeat_timed_lift [where R = "\<lambda>evs. filter is_printed evs = []"])
  fix w
  show "filter is_printed (events (timed clock (time_ch gen n get sh ch k) w)) = []"
    by (rule events_timed_time_ch_lift [where R = "\<lambda>evs. filter is_printed evs = []"]) simp_all
qed simp_all

lemma length_repeat_timed:
  "repeat_timed k clock stmt w = (Inr ds, evs, w') \<Longrightarrow> length ds = k"
proof (induction k arbitrary: w ds evs w')
  case 0
  then show ?case by (simp add: ret_def)
next
  case (Suc k)
  then show ?case
    by (fastforce simp: bind_def ret_def split: prod.splits sum.splits)
qed

lemma trial_unfold:
  "trial l gen clock reps get n w =
     (case repeat_timed reps clock (time_ch gen n get default_shape default_chunks default_n_steps) w of
        (Inl e, evs, w') \<Rightarrow> (Inl e, Print_label n l # evs, w')
      | (Inr [], evs, w') \<Rightarrow> (Inr (), Print_label n l # evs, w')
      | (Inr (d # ds), evs, w') \<Rightarrow>
          (Inr (), Print_label n l # evs @ [Print_best reps (fold min ds d)], w'))"
  by (simp add: trial_def timeit_def bind_def emit_def ret_def split: prod.splits sum.splits list.splits)

lemma trial_rows:
  "\<exists>rs p'. (\<forall>rest. rows_from p (events (trial l gen clock reps get n w) @ rest) = rs @ rows_from p' rest)
     \<and> (rs = [] \<or> (\<exists>d. rs = [(n, l, d)]))
     \<and> (reps = 0 \<longrightarrow> rs = [])
     \<and> (outcome (trial l gen clock reps get n w) \<noteq> Inr () \<longrightarrow> rs = [])
     \<and> (outcome (trial l gen clock reps get n w) = Inr () \<and> 0 < reps \<longrightarrow> rs \<noteq> [])"
proof (cases "repeat_timed reps clock (time_ch gen n get default_shape default_chunks default_n_steps) w")
  case (fields r evs w')
  have silent: "filter is_printed evs = []"
    using silent_repeat_timed [of reps clock gen n get default_shape default_chunks default_n_steps w]
      fields by (simp add: events_def)
  show ?thesis
  proof (cases r)
    case (Inl e)
    then have rows: "\<forall>rest. rows_from p (events (trial l gen clock reps get n w) @ rest)
        = [] @ rows_from (Some (n, l)) rest"
      using fields silent by (simp add: trial_unfold events_def rows_from_silent)
    have out: "outcome (trial l gen clock reps get n w) \<noteq> Inr ()"
      using Inl fields by (simp add: trial_unfold outcome_def)
    show ?thesis
      using rows out by (intro exI [of _ "[]"] exI [of _ "Some (n, l)"]) simp
  next
    case (Inr samples)
    have len: "length samples = reps"
      using fields Inr by (auto dest: length_repeat_timed)
    show ?thesis
    proof (cases samples)
      case Nil
      then have rows: "\<forall>rest. rows_from p (events (trial l gen clock reps get n w) @ rest)
          = [] @ rows_from (Some (n, l)) rest"
        using Inr fields silent by (simp add: trial_unfold events_def rows_from_silent)
      have zero: "reps = 0" using len Nil by simp
      show ?thesis
        using rows zero by (intro exI [of _ "[]"] exI [of _ "Some (n, l)"]) simp
    next
      case (Cons d ds)
      then have rows: "\<forall>rest. rows_from p (events (trial l gen clock reps get n w) @ rest)
          = [(n, l, fold min ds d)] @ rows_from None rest"
        using Inr fields silent by (simp add: trial_unfold events_def rows_from_silent)
      have pos: "reps \<noteq> 0" using len Cons by auto
      have out: "outcome (trial l gen clock reps get n w) = Inr ()"
        using Cons Inr fields by (simp add: trial_unfold outcome_def)
      show ?thesis
        using rows pos out by (intro exI [of _ "[(n, l, fold min ds d)]"] exI [of _ None]) simp
    qed
  qed
qed

lemma loop_rows:
  "\<exists>rs p'. (\<forall>rest. rows_from p (events (for_each ns (trial l gen clock reps get) w) @ rest)
               = rs @ rows_from p' rest)
     \<and> (\<forall>r \<in> set rs. fst (snd r) = l)
     \<and> (\<exists>j. map fst rs = take j ns)
     \<and> (reps = 0 \<longrightarrow> rs = [])
     \<and> (outcome (for_each ns (trial l gen clock reps get) w) = Inr () \<and> 0 < reps \<longrightarrow> map fst rs = ns)"
proof (induction ns arbitrary: p w)
  case Nil
  have "\<forall>rest. rows_from p (events (for_each [] (trial l gen clock reps get) w) @ rest)
      = [] @ rows_from p rest"
    by (simp add: ret_def events_def)
  then show ?case
    by (intro exI [of _ "[]"] exI [of _ p]) simp
next
  case (Cons n ns)
  let ?body = "trial l gen clock reps get"
  obtain rs1 p1 where
    t1: "\<And>rest. rows_from p (events (?body n w) @ rest) = rs1 @ rows_from p1 rest"
    and t2: "rs1 = [] \<or> (\<exists>d. rs1 = [(n, l, d)])"
    and t3: "reps = 0 \<longrightarrow> rs1 = []"
    and t4: "outcome (?body n w) \<noteq> Inr () \<longrightarrow> rs1 = []"
    and t5: "outcome (?body n w) = Inr () \<and> 0 < reps \<longrightarrow> rs1 \<noteq> []"
    using trial_rows [of p l gen clock reps get n w] by blast
  obtain r evs w' where tr: "?body n w = (r, evs, w')" by (cases "?body n w")
  show ?case
  proof (cases r)
    case (Inl e)
    have ev: "events (for_each (n # ns) ?body w) = evs"
      and out: "outcome (for_each (n # ns) ?body w) = Inl e"
      using tr Inl by (simp_all add: bind_def events_def outcome_def)
    have "rs1 = []" using t4 tr Inl by (simp add: outcome_def)
    then have rows: "\<forall>rest. rows_from p (events (for_each (n # ns) ?body w) @ rest)
        = [] @ rows_from p1 rest"
      using t1 tr ev by (simp add: events_def)
    have pre: "\<exists>j. map fst ([] :: row list) = take j (n # ns)"
      by (rule exI [of _ 0]) simp
    show ?thesis
      using rows pre out by (intro exI [of _ "[]"] exI [of _ p1]) simp
  next
    case (Inr u)
    obtain rs2 p2 where
      l1: "\<And>rest. rows_from p1 (events (for_each ns ?body w') @ rest) = rs2 @ rows_from p2 rest"
      and l2: "\<forall>r \<in> set rs2. fst (snd r) = l"
      and l3: "\<exists>j. map fst rs2 = take j ns"
      and l4: "reps = 0 \<longrightarrow> rs2 = []"
      and l5: "outcome (for_each ns ?body w') = Inr () \<and> 0 < reps \<longrightarrow> map fst rs2 = ns"
      using Cons.IH [of p1 w'] by blast
    have ev: "events (for_each (n # ns) ?body w) = evs @ events (for_each ns ?body w')"
      and out: "outcome (for_each (n # ns) ?body w) = outcome (for_each ns ?body w')"
      using tr Inr by (simp_all add: bind_def events_def outcome_def split: prod.splits)
    have rows: "\<forall>rest. rows_from p (events (for_each (n # ns) ?body w) @ rest)
        = (rs1 @ rs2) @ rows_from p2 rest"
      using t1 l1 tr ev by (simp add: events_def)
    have labels: "\<forall>r \<in> set (rs1 @ rs2). fst (snd r) = l"
      using t2 l2 by auto
    have zero: "reps = 0 \<longrightarrow> rs1 @ rs2 = []"
      using t3 l4 by simp
    have pre: "\<exists>j. map fst (rs1 @ rs2) = take j (n # ns)"
    proof (cases "reps = 0")
      case True
      then have "map fst (rs1 @ rs2) = take 0 (n # ns)" using zero by simp
      then show ?thesis by (rule exI)
    next
      case False
      then obtain d where rs1: "rs1 = [(n, l, d)]"
        using t2 t5 tr Inr by (auto simp: outcome_def)
      obtain j where "map fst rs2 = take j ns" using l3 by blast
      then have "map fst (rs1 @ rs2) = take (Suc j) (n # ns)" using rs1 by simp
      then show ?thesis by (rule exI)
    qed
    have full: "outcome (for_each (n # ns) ?body w) = Inr () \<and> 0 < reps
        \<longrightarrow> map fst (rs1 @ rs2) = n # ns"
    proof
      assume a: "outcome (for_each (n # ns) ?body w) = Inr () \<and> 0 < reps"
      then obtain d where rs1: "rs1 = [(n, l, d)]"
        using t2 t5 tr Inr by (auto simp: outcome_def)
      have "map fst rs2 = ns" using a l5 out by simp
      then show "map fst (rs1 @ rs2) = n # ns" using rs1 by simp
    qed
    show ?thesis
      apply (rule exI [of _ "rs1 @ rs2"])
      apply (rule exI [of _ p2])
      using rows labels pre zero full by (intro conjI)
  qed
qed

lemma repeat_timed_fails:
  assumes "repeat_timed j clock stmt w0 = (Inr ds, evs1, w1)"
    and "stmt w1 = (Inl e, evs2, w2)"
  shows "repeat_timed (j + Suc m) clock stmt w0 = (Inl e, evs1 @ Timer_start # evs2, w2)"
  using assms
proof (induction j arbitrary: w0 ds evs1)
  case 0
  then show ?case by (simp add: ret_def bind_def timed_unfold)
next
  case (Suc j)
  obtain r a wa where first: "timed clock stmt w0 = (r, a, wa)" by (cases "timed clock stmt w0")
  show ?case
  proof (cases r)
    case (Inl e')
    then show ?thesis using Suc.prems(1) first by (simp add: bind_def)
  next
    case (Inr d)
    obtain r' b wb where rest: "repeat_timed j clock stmt wa = (r', b, wb)"
      by (cases "repeat_timed j clock stmt wa")
    show ?thesis
    proof (cases r')
      case (Inl e')
      then show ?thesis using Suc.prems(1) first Inr rest by (simp add: bind_def)
    next
      case (Inr ds')
      have eq: "evs1 = a @ b" "w1 = wb"
        using Suc.prems(1) first \<open>r = Inr d\<close> rest Inr by (simp_all add: bind_def ret_def)
      have "repeat_timed (j + Suc m) clock stmt wa = (Inl e, b @ Timer_start # evs2, w2)"
        using Suc.IH [of wa ds' b] rest Inr Suc.prems(2) eq by simp
      then show ?thesis using first \<open>r = Inr d\<close> eq by (simp add: bind_def)
    qed
  qed
qed


section \<open>The claims\<close>

text \<open>
  C8. For every input, a call of \<open>time_ch\<close> that returns gives \<open>None\<close>, never an array:
  when the graph is built and the response field is realized, the field is dropped,
  and neither the value returned, nor the trace, nor the world that \<open>time_ch\<close> hands
  back keeps it (the world is the one the scheduler left).
\<close>

theorem time_ch_returns_None:
  "(\<forall>v. outcome (time_ch gen n get sh ch k w) = Inr v \<longrightarrow> v = PyNone) \<and>
   (\<forall>x y w1 field w2. gen sh ch k w = (Inr (x, y), w1) \<longrightarrow> get y n w1 = (Inr field, w2) \<longrightarrow>
      time_ch gen n get sh ch k w = (Inr PyNone, [Generate sh ch k, Compute y n], w2))"
  by (auto simp: time_ch_unfold outcome_def split: prod.splits sum.splits)

theorem time_ch_returns_None_witness:
  "sample_generate default_shape default_chunks default_n_steps 0
     = (Inr (''microstructure'', ''response''), 1) \<and>
   sample_get ''response'' 4 1 = (Inr ''realized response'', 5) \<and>
   time_ch sample_generate 4 sample_get default_shape default_chunks default_n_steps 0
     = (Inr PyNone, [Generate default_shape default_chunks default_n_steps, Compute ''response'' 4], 5)"
proof -
  have g: "sample_generate default_shape default_chunks default_n_steps 0
      = (Inr (''microstructure'', ''response''), 1)"
    by (simp add: sample_generate_def)
  have s: "sample_get ''response'' 4 1 = (Inr ''realized response'', 5)"
    by (simp add: sample_get_def)
  show ?thesis
    using time_ch_returns_None
      [of sample_generate 4 sample_get default_shape default_chunks default_n_steps 0] g s
    by simp
qed

text \<open>
  C9. A trial realizes only the second element of the pair that graph construction
  returns: when construction gives \<open>(x, y)\<close>, the only \<open>compute\<close> of the call is on the
  response \<open>y\<close>, and the whole result of \<open>time_ch\<close> is that of the scheduler run on \<open>y\<close>;
  the microstructure \<open>x\<close> appears nowhere in it.
\<close>

theorem time_ch_computes_response_only:
  assumes "gen sh ch k w = (Inr (x, y), w1)"
  shows "filter is_compute (events (time_ch gen n get sh ch k w)) = [Compute y n] \<and>
         time_ch gen n get sh ch k w =
           (case get y n w1 of (r, w2) \<Rightarrow>
              (map_sum id (\<lambda>_. PyNone) r, [Generate sh ch k, Compute y n], w2))"
  using assms by (auto simp: time_ch_unfold events_def split: prod.splits sum.splits)

theorem time_ch_computes_response_only_witness:
  "sample_generate default_shape default_chunks default_n_steps 0
     = (Inr (''microstructure'', ''response''), 1) \<and>
   filter is_compute
     (events (time_ch sample_generate 2 sample_get default_shape default_chunks default_n_steps 0))
     = [Compute ''response'' 2]"
proof -
  have g: "sample_generate default_shape default_chunks default_n_steps 0
      = (Inr (''microstructure'', ''response''), 1)"
    by (simp add: sample_generate_def)
  show ?thesis
    using time_ch_computes_response_only
      [where gen = sample_generate and sh = default_shape and ch = default_chunks
         and k = default_n_steps and w = 0 and x = "''microstructure''" and y = "''response''"
         and ?w1.0 = 1 and n = 2 and get = sample_get] g
    by blast
qed

text \<open>
  C4. For every execution request with \<open>worker_count < 1\<close>, on either backend and
  whatever its pool would do, \<open>execute\<close> fails with \<open>ExecutionError\<close> and runs no task.
  \<open>time_ch\<close> hands the worker count to the scheduler as it got it and lets the error
  through: once the graph is built, the call ends in \<open>compute\<close> with \<open>ExecutionError\<close>,
  in the world that graph construction left.
\<close>

theorem worker_count_below_one_fails:
  assumes "n < 1" and "gen sh ch k w = (Inr (x, y), w1)"
  shows "execute kind pool y n w1 = (Inl ExecutionError, w1) \<and>
         time_ch gen n (execute kind pool) sh ch k w
           = (Inl ExecutionError, [Generate sh ch k, Compute y n], w1)"
proof -
  have e: "execute kind pool y n w1 = (Inl ExecutionError, w1)"
    using assms(1) by (simp add: execute_def)
  show ?thesis
    using e assms(2) by (simp add: time_ch_unfold)
qed

theorem worker_count_below_one_fails_witness:
  "(0::int) < 1 \<and>
   sample_generate default_shape default_chunks default_n_steps 0
     = (Inr (''microstructure'', ''response''), 1) \<and>
   execute THREADED sample_pool ''response'' 0 1 = (Inl ExecutionError, 1) \<and>
   time_ch sample_generate 0 (execute THREADED sample_pool)
       default_shape default_chunks default_n_steps 0
     = (Inl ExecutionError,
        [Generate default_shape default_chunks default_n_steps, Compute ''response'' 0], 1) \<and>
   time_ch sample_generate 2 (execute MULTIPROCESS sample_pool)
       default_shape default_chunks default_n_steps 0
     = (Inr PyNone,
        [Generate default_shape default_chunks default_n_steps, Compute ''response'' 2], 10)"
proof -
  have n: "(0::int) < 1" by simp
  have g: "sample_generate default_shape default_chunks default_n_steps 0
      = (Inr (''microstructure'', ''response''), 1)"
    by (simp add: sample_generate_def)
  have ok: "time_ch sample_generate 2 (execute MULTIPROCESS sample_pool)
       default_shape default_chunks default_n_steps 0
     = (Inr PyNone,
        [Generate default_shape default_chunks default_n_steps, Compute ''response'' 2], 10)"
    by (simp add: time_ch_unfold sample_generate_def execute_def sample_pool_def)
  show ?thesis
    using worker_count_below_one_fails
      [where gen = sample_generate and sh = default_shape and ch = default_chunks
         and k = default_n_steps and w = 0 and x = "''microstructure''" and y = "''response''"
         and ?w1.0 = 1 and n = 0 and kind = THREADED and pool = sample_pool] n g ok
    by blast
qed

text \<open>
  C5. \<open>build\<close> fails with \<open>ConfigurationError\<close> when \<open>n_steps < 1\<close> and when a chunk
  dimension exceeds the volume's on some axis, under every remainder policy. The failure
  is raised at build time: a call of \<open>time_ch\<close> on such parameters ends in graph
  construction with that error, whatever the scheduler and the worker count, and no
  \<open>compute\<close> is reached.
\<close>

theorem build_fails_at_build_time:
  assumes "k < 1 \<or> fst ch > fst sh \<or> fst (snd ch) > fst (snd sh) \<or> snd (snd ch) > snd (snd sh)"
  shows "build pol sh ch k w = (Inl ConfigurationError, w) \<and>
         time_ch (build pol) n get sh ch k w = (Inl ConfigurationError, [Generate sh ch k], w)"
proof -
  have b: "build pol sh ch k w = (Inl ConfigurationError, w)"
    using assms by (cases sh; cases ch) (auto simp: build_def grid_def split: option.splits)
  show ?thesis using b by (simp add: time_ch_unfold)
qed

theorem build_fails_at_build_time_witness:
  "(0::int) < 1 \<and>
   build Ragged (8, 20, 20) (1, 20, 20) 0 (0::nat) = (Inl ConfigurationError, 0) \<and>
   time_ch (build Ragged) 4 counting_get (8, 20, 20) (1, 20, 20) 0 0
     = (Inl ConfigurationError, [Generate (8, 20, 20) (1, 20, 20) 0], 0) \<and>
   fst (9::int, 20::int, 20::int) > fst (8::int, 20::int, 20::int) \<and>
   build Ragged (8, 20, 20) (9, 20, 20) 5 (0::nat) = (Inl ConfigurationError, 0) \<and>
   time_ch (build Ragged) 4 counting_get (8, 20, 20) (9, 20, 20) 5 0
     = (Inl ConfigurationError, [Generate (8, 20, 20) (9, 20, 20) 5], 0)"
proof -
  have steps: "(0::int) < 1 \<or> fst (1::int, 20::int, 20::int) > fst (8::int, 20::int, 20::int)
      \<or> fst (snd (1::int, 20::int, 20::int)) > fst (snd (8::int, 20::int, 20::int))
      \<or> snd (snd (1::int, 20::int, 20::int)) > snd (snd (8::int, 20::int, 20::int))"
    by simp
  have chunk: "(5::int) < 1 \<or> fst (9::int, 20::int, 20::int) > fst (8::int, 20::int, 20::int)
      \<or> fst (snd (9::int, 20::int, 20::int)) > fst (snd (8::int, 20::int, 20::int))
      \<or> snd (snd (9::int, 20::int, 20::int)) > snd (snd (8::int, 20::int, 20::int))"
    by simp
  show ?thesis
    using build_fails_at_build_time [OF steps, of Ragged "0::nat" 4 counting_get]
      build_fails_at_build_time [OF chunk, of Ragged "0::nat" 4 counting_get]
    by simp
qed

lemma length_step_nodes: "length (concat (map (step_nodes g) ts)) = length ts * n_chunks g"
  by (induction ts) (simp_all add: step_nodes_def)

lemma length_task_graph: "length (nodes (task_graph g k)) = n_chunks g * (k + 1) + 2"
  by (simp add: task_graph_def length_step_nodes)

text \<open>
  C3. Building the graph runs no simulation step: for every shape, chunks and step
  count, \<open>build\<close> hands the world back as it came, so all it does is make the dependency
  structure, of \<open>chunks \<times> (n_steps + 1) + 2\<close> task nodes. In a trial on this builder the
  world changes only in \<open>compute\<close>: the world after \<open>time_ch\<close> is the one the scheduler
  leaves when it realizes the response from the untouched world.
\<close>

theorem build_runs_no_step:
  "snd (build pol sh ch k w) = w \<and>
   world (time_ch (build pol) n get sh ch k w) =
     (case fst (build pol sh ch k w) of Inl e \<Rightarrow> w | Inr (x, y) \<Rightarrow> snd (get y n w)) \<and>
   (\<forall>x y. fst (build pol sh ch k w) = Inr (x, y) \<longrightarrow>
      (\<exists>g. grid pol sh ch = Some g \<and> graph_of x = graph_of y \<and>
           length (nodes (graph_of y)) = n_chunks g * (nat k + 1) + 2))"
  by (auto simp: build_def time_ch_unfold world_def length_task_graph
      split: option.splits prod.splits sum.splits)

theorem build_runs_no_step_witness:
  "fst (build Ragged (4, 5, 5) (2, 2, 5) 2 (0::nat))
     = Inr (\<lparr>graph_of = task_graph (2, 3, 1) 2, root = Assemble_microstructure\<rparr>,
            \<lparr>graph_of = task_graph (2, 3, 1) 2, root = Assemble_response\<rparr>) \<and>
   snd (build Ragged (4, 5, 5) (2, 2, 5) 2 (0::nat)) = 0 \<and>
   length (nodes (task_graph (2, 3, 1) 2)) = 20 \<and>
   world (time_ch (build Ragged) 2 counting_get (4, 5, 5) (2, 2, 5) 2 0) = 12"
proof -
  have g: "grid Ragged (4, 5, 5) (2, 2, 5) = Some (2, 3, 1)"
    by (simp add: grid_def blocks_along_def)
  have b: "fst (build Ragged (4, 5, 5) (2, 2, 5) 2 (0::nat))
      = Inr (\<lparr>graph_of = task_graph (2, 3, 1) 2, root = Assemble_microstructure\<rparr>,
             \<lparr>graph_of = task_graph (2, 3, 1) 2, root = Assemble_response\<rparr>)"
    by (simp add: build_def g)
  have c: "snd (counting_get \<lparr>graph_of = task_graph (2, 3, 1) 2, root = Assemble_response\<rparr> 2 0) = 12"
    by code_simp
  show ?thesis
    using build_runs_no_step [of Ragged "(4, 5, 5)" "(2, 2, 5)" 2 "0::nat" 2 counting_get] b c g
    by (simp add: n_chunks_def)
qed

text \<open>
  C2, as the claim states it, fails: with one repetition and the sample collaborators,
  each timed interval of the threaded loop holds the graph construction
  (\<open>Generate\<close>) as well as the execution call.
\<close>

theorem timing_brackets_execution_only_counterexample:
  "timed_intervals (events (threaded_timings sample_generate id 1 sample_get 0))
     = [[Generate (48, 200, 200) (1, 200, 200) 100, Compute ''response'' 8],
        [Generate (48, 200, 200) (1, 200, 200) 100, Compute ''response'' 4],
        [Generate (48, 200, 200) (1, 200, 200) 100, Compute ''response'' 2],
        [Generate (48, 200, 200) (1, 200, 200) 100, Compute ''response'' 1]] \<and>
   \<not> list_all (list_all is_compute)
       (timed_intervals (events (threaded_timings sample_generate id 1 sample_get 0)))"
  by code_simp

text \<open>
  C2, as the code has it. For every trial the elapsed-time measurement brackets the whole
  call of \<open>time_ch\<close>: every completed timed interval of the notebook holds exactly the
  graph construction with the default arguments followed by the execution call.
\<close>

theorem timing_brackets_whole_call:
  "\<forall>iv \<in> set (timed_intervals (events (notebook gen clock reps tget mget w))). whole_call iv"
proof -
  let ?R = "\<lambda>evs. \<forall>cur. \<forall>iv \<in> set (intervals_from cur evs). whole_call iv"
  have "?R (events (notebook gen clock reps tget mget w))"
  proof (rule notebook_trace_induct [where R = ?R])
    fix a b :: "'a event list"
    assume a: "?R a" and b: "?R b"
    show "?R (a @ b)"
    proof
      fix cur
      obtain cur' where "intervals_from cur (a @ b) = intervals_from cur a @ intervals_from cur' b"
        using intervals_from_append [of cur a] by blast
      then show "\<forall>iv \<in> set (intervals_from cur (a @ b)). whole_call iv"
        using a b by auto
    qed
  qed (simp_all add: intervals_from_printed)
  then show ?thesis by (simp add: timed_intervals_def)
qed

theorem timing_brackets_whole_call_witness:
  "[Generate default_shape default_chunks default_n_steps, Compute ''response'' 8]
     \<in> set (timed_intervals (events (notebook sample_generate id 1 sample_get sample_get 0))) \<and>
   whole_call [Generate default_shape default_chunks default_n_steps, Compute ''response'' 8]"
proof -
  have "[Generate default_shape default_chunks default_n_steps, Compute ''response'' 8]
     \<in> set (timed_intervals (events (notebook sample_generate id 1 sample_get sample_get 0)))"
    by code_simp
  then show ?thesis
    using timing_brackets_whole_call [of sample_generate id 1 sample_get sample_get 0] by blast
qed

text \<open>
  C10. The default arguments \<open>shape = (48, 200, 200)\<close>, \<open>chunks = (1, 200, 200)\<close> have every
  chunk dimension dividing the volume's with no remainder, which gives 48 equal chunks;
  and every graph construction of the notebook, whatever the collaborators do, is called
  with these defaults and \<open>n_steps = 100\<close>.
\<close>

theorem default_arguments_divide_evenly:
  "(case (default_shape, default_chunks) of ((d, h, w), (cd, ch, cw)) \<Rightarrow>
      cd dvd d \<and> ch dvd h \<and> cw dvd w \<and> d mod cd = 0 \<and> h mod ch = 0 \<and> w mod cw = 0 \<and>
      (d div cd) * (h div ch) * (w div cw) = 48) \<and>
   default_n_steps = 100 \<and>
   (\<forall>ev \<in> set (events (notebook gen clock reps tget mget w)). \<forall>shape chunks n_steps.
      ev = Generate shape chunks n_steps \<longrightarrow>
      shape = default_shape \<and> chunks = default_chunks \<and> n_steps = default_n_steps)"
proof -
  let ?R = "\<lambda>evs. \<forall>ev \<in> set evs. \<forall>shape chunks n_steps.
      ev = Generate shape chunks n_steps \<longrightarrow>
      shape = default_shape \<and> chunks = default_chunks \<and> n_steps = default_n_steps"
  have trace: "?R (events (notebook gen clock reps tget mget w))"
    by (rule notebook_trace_induct [where R = ?R]) auto
  have arith: "(case (default_shape, default_chunks) of ((d, h, w), (cd, ch, cw)) \<Rightarrow>
      cd dvd d \<and> ch dvd h \<and> cw dvd w \<and> d mod cd = 0 \<and> h mod ch = 0 \<and> w mod cw = 0 \<and>
      (d div cd) * (h div ch) * (w div cw) = 48)"
    by (simp add: default_shape_def default_chunks_def)
  have steps: "default_n_steps = 100" by (simp add: default_n_steps_def)
  show ?thesis using arith steps trace by (intro conjI)
qed

theorem default_arguments_divide_evenly_witness:
  "Generate (48, 200, 200) (1, 200, 200) 100
     \<in> set (events (notebook sample_generate id 1 sample_get sample_get 0)) \<and>
   (48, 200, 200) = default_shape \<and> (1, 200, 200) = default_chunks \<and> 100 = default_n_steps"
proof -
  have "Generate (48, 200, 200) (1, 200, 200) 100
     \<in> set (events (notebook sample_generate id 1 sample_get sample_get 0))"
    by code_simp
  then show ?thesis
    using default_arguments_divide_evenly [of sample_generate id 1 sample_get sample_get 0]
    by blast
qed

text \<open>
  C7, as the claim states it, fails: when the scheduler's workers fail in the second
  repetition for two threads, the threaded loop ends with the worker's own error, not
  with a \<open>BenchmarkError\<close> that carries the worker count and the backend.
\<close>

theorem benchmark_error_counterexample:
  "outcome (timing_cell THREADED sample_generate id 3 flaky_get 0) = Inl WorkerFailure \<and>
   outcome (timing_cell THREADED sample_generate id 3 flaky_get 0)
     \<noteq> Inl (BenchmarkError 2 THREADED WorkerFailure)"
  by code_simp

text \<open>
  C7, as the code has it. When a timed repetition for some worker count fails (after
  the trials before it and the repetitions before it went through), the loop of that
  backend ends there with that repetition's own error, unwrapped; the trace ends with
  the failed run, so the repetition is not retried and no further worker count is
  tried; and the report gains no row for that worker count: only its label line is
  printed.
\<close>

theorem failed_repetition_ends_loop:
  assumes split: "[8, 4, 2, 1] = pre @ n # post"
    and before: "for_each pre (trial (kind_label kind) gen clock reps get) w = (Inr (), evs0, w0)"
    and earlier: "j < reps"
      "repeat_timed j clock (time_ch gen n get default_shape default_chunks default_n_steps) w0
         = (Inr ds, evs1, w1)"
    and failing: "time_ch gen n get default_shape default_chunks default_n_steps w1 = (Inl e, evs2, w2)"
  shows "timing_cell kind gen clock reps get w
           = (Inl e, evs0 @ Print_label n (kind_label kind) # evs1 @ Timer_start # evs2, w2)
         \<and> report (evs0 @ Print_label n (kind_label kind) # evs1 @ Timer_start # evs2) = report evs0"
proof -
  let ?l = "kind_label kind"
  let ?stmt = "time_ch gen n get default_shape default_chunks default_n_steps"
  obtain m where reps: "reps = j + Suc m"
    using earlier(1) less_iff_Suc_add by auto
  have "repeat_timed reps clock ?stmt w0 = (Inl e, evs1 @ Timer_start # evs2, w2)"
    unfolding reps by (rule repeat_timed_fails [OF earlier(2) failing])
  then have tr: "trial ?l gen clock reps get n w0
      = (Inl e, Print_label n ?l # evs1 @ Timer_start # evs2, w2)"
    by (simp add: trial_unfold)
  have cell: "timing_cell kind gen clock reps get w
      = (Inl e, evs0 @ Print_label n ?l # evs1 @ Timer_start # evs2, w2)"
    unfolding timing_cell_trial split for_each_append
    using before tr by (simp add: bind_def)
  have s1: "filter is_printed evs1 = []"
    using silent_repeat_timed [of j clock gen n get default_shape default_chunks default_n_steps w0]
      earlier(2) by (simp add: events_def)
  have s2: "filter is_printed evs2 = []"
    using silent_time_ch [of gen n get default_shape default_chunks default_n_steps w1]
      failing by (simp add: events_def)
  have s: "filter is_printed (evs1 @ Timer_start # evs2) = []"
    using s1 s2 by simp
  obtain p' where "\<forall>rest. rows_from None (evs0 @ rest) = rows_from None evs0 @ rows_from p' rest"
    using rows_from_append [of None evs0] by blast
  then have "rows_from None (evs0 @ Print_label n ?l # evs1 @ Timer_start # evs2)
      = rows_from None evs0 @ rows_from (Some (n, ?l)) ((evs1 @ Timer_start # evs2) @ [])"
    by simp
  also have "\<dots> = rows_from None evs0"
    by (simp only: rows_from_silent [OF s]) simp
  finally show ?thesis using cell by (simp add: report_def)
qed

theorem failed_repetition_ends_loop_witness:
  "[8, 4, 2, 1] = [8, 4] @ 2 # [1::int] \<and> (1::nat) < 3 \<and>
   outcome (for_each [8, 4] (trial (kind_label THREADED) sample_generate id 3 flaky_get) 0) = Inr () \<and>
   outcome (repeat_timed 1 id
      (time_ch sample_generate 2 flaky_get default_shape default_chunks default_n_steps) 24)
     = Inr [9] \<and>
   outcome (time_ch sample_generate 2 flaky_get default_shape default_chunks default_n_steps 33)
     = Inl WorkerFailure \<and>
   outcome (timing_cell THREADED sample_generate id 3 flaky_get 0) = Inl WorkerFailure \<and>
   world (timing_cell THREADED sample_generate id 3 flaky_get 0) = 34 \<and>
   report (events (timing_cell THREADED sample_generate id 3 flaky_get 0))
     = [(8, ''thread(s)'', 3), (4, ''thread(s)'', 5)]"
proof -
  let ?G = "Generate (48, 200, 200) (1, 200, 200) 100 :: string event"
  let ?run = "\<lambda>n. [Timer_start, ?G, Compute ''response'' n, Timer_stop]"
  let ?evs0 = "Print_label 8 ''thread(s)'' # ?run 8 @ ?run 8 @ ?run 8 @ Print_best 3 3
      # Print_label 4 ''thread(s)'' # ?run 4 @ ?run 4 @ ?run 4 @ [Print_best 3 5]"
  have split: "[8, 4, 2, 1] = [8, 4] @ 2 # [1::int]" by simp
  have before: "for_each [8, 4] (trial (kind_label THREADED) sample_generate id 3 flaky_get) 0
      = (Inr (), ?evs0, 24)"
    by code_simp
  have j: "(1::nat) < 3" by simp
  have earlier: "repeat_timed 1 id
      (time_ch sample_generate 2 flaky_get default_shape default_chunks default_n_steps) 24
      = (Inr [9], ?run 2, 33)"
    by code_simp
  have failing: "time_ch sample_generate 2 flaky_get default_shape default_chunks default_n_steps 33
      = (Inl WorkerFailure, [?G, Compute ''response'' 2], 34)"
    by code_simp
  have rep0: "report ?evs0 = [(8, ''thread(s)'', 3), (4, ''thread(s)'', 5)]"
    by code_simp
  show ?thesis
    using failed_repetition_ends_loop [OF split before j earlier failing]
      split before j earlier failing rep0
    by (simp add: outcome_def world_def events_def)
qed

lemma map_label_replicate:
  "\<forall>r \<in> set rs. fst (snd r) = l \<Longrightarrow> map (fst \<circ> snd) rs = replicate (length rs) l"
  by (induction rs) simp_all

lemma filter_label_same:
  "\<forall>r \<in> set rs. fst (snd r) = l \<Longrightarrow> filter (\<lambda>r. fst (snd r) = l) rs = rs"
  by (induction rs) simp_all

lemma filter_label_other:
  "\<forall>r \<in> set rs. fst (snd r) = l \<Longrightarrow> l \<noteq> l' \<Longrightarrow> filter (\<lambda>r. fst (snd r) = l') rs = []"
  by (induction rs) simp_all

lemma map_count_label:
  "\<forall>r \<in> set rs. fst (snd r) = l \<Longrightarrow> map (\<lambda>r. (fst r, fst (snd r))) rs = map (\<lambda>n. (n, l)) (map fst rs)"
  by (induction rs) simp_all

lemma notebook_rows:
  "\<exists>rs1 rs2. report (events (notebook gen clock reps tget mget w)) = rs1 @ rs2
     \<and> (\<forall>r \<in> set rs1. fst (snd r) = ''thread(s)'')
     \<and> (\<forall>r \<in> set rs2. fst (snd r) = ''process(es)'')
     \<and> (\<exists>i. map fst rs1 = take i [8, 4, 2, 1])
     \<and> (\<exists>j. map fst rs2 = take j [8, 4, 2, 1])
     \<and> (outcome (notebook gen clock reps tget mget w) = (Inr (), Inr ()) \<and> 0 < reps
          \<longrightarrow> map fst rs1 = [8, 4, 2, 1] \<and> map fst rs2 = [8, 4, 2, 1])"
proof -
  let ?t = "for_each [8, 4, 2, 1] (trial ''thread(s)'' gen clock reps tget)"
  let ?w1 = "world (?t w)"
  let ?m = "for_each [8, 4, 2, 1] (trial ''process(es)'' gen clock reps mget)"
  obtain rs1 p1 where
    a1: "\<forall>rest. rows_from None (events (?t w) @ rest) = rs1 @ rows_from p1 rest"
    and a2: "\<forall>r \<in> set rs1. fst (snd r) = ''thread(s)''"
    and a3: "\<exists>i. map fst rs1 = take i [8, 4, 2, 1]"
    and a0: "reps = 0 \<longrightarrow> rs1 = []"
    and a4: "outcome (?t w) = Inr () \<and> 0 < reps \<longrightarrow> map fst rs1 = [8, 4, 2, 1]"
    using loop_rows [of None "[8, 4, 2, 1]" "''thread(s)''" gen clock reps tget w]
    by (elim exE conjE) (rule that; (assumption | (rule exI, assumption)))
  obtain rs2 p2 where
    b1: "\<forall>rest. rows_from p1 (events (?m ?w1) @ rest) = rs2 @ rows_from p2 rest"
    and b2: "\<forall>r \<in> set rs2. fst (snd r) = ''process(es)''"
    and b3: "\<exists>j. map fst rs2 = take j [8, 4, 2, 1]"
    and b0: "reps = 0 \<longrightarrow> rs2 = []"
    and b4: "outcome (?m ?w1) = Inr () \<and> 0 < reps \<longrightarrow> map fst rs2 = [8, 4, 2, 1]"
    using loop_rows [of p1 "[8, 4, 2, 1]" "''process(es)''" gen clock reps mget ?w1]
    by (elim exE conjE) (rule that; (assumption | (rule exI, assumption)))
  have ev: "events (notebook gen clock reps tget mget w) = events (?t w) @ events (?m ?w1)"
    by (simp add: events_notebook threaded_timings_trial multiprocessing_timings_trial
        del: for_each.simps)
  have out: "outcome (notebook gen clock reps tget mget w) = (outcome (?t w), outcome (?m ?w1))"
    by (simp add: notebook_def threaded_timings_trial multiprocessing_timings_trial
        outcome_def world_def split: prod.splits del: for_each.simps)
  have "rows_from None (events (?t w) @ events (?m ?w1)) = rs1 @ rows_from p1 (events (?m ?w1) @ [])"
    using a1 by (simp del: for_each.simps)
  also have "\<dots> = rs1 @ rs2"
    using b1 [rule_format, of "[]"] by (simp del: for_each.simps)
  finally have rep: "report (events (notebook gen clock reps tget mget w)) = rs1 @ rs2"
    by (simp add: report_def ev del: for_each.simps)
  have full: "outcome (notebook gen clock reps tget mget w) = (Inr (), Inr ()) \<and> 0 < reps
      \<longrightarrow> map fst rs1 = [8, 4, 2, 1] \<and> map fst rs2 = [8, 4, 2, 1]"
    using a4 b4 out by (simp del: for_each.simps)
  show ?thesis
    apply (rule exI [of _ rs1])
    apply (rule exI [of _ rs2])
    using rep a2 b2 a3 b3 full by (intro conjI)
qed

text \<open>
  C6. The report of the notebook is grouped by backend: its rows are threaded rows
  followed by multiprocessing rows. Within each group the worker counts are strictly
  descending. When both loops go through, with at least one repetition, the rows are
  those of 8, 4, 2 and 1 threads, then of 8, 4, 2 and 1 processes.
\<close>

theorem report_grouped_descending:
  "(\<exists>a b. map (fst \<circ> snd) (report (events (notebook gen clock reps tget mget w)))
           = replicate a (kind_label THREADED) @ replicate b (kind_label MULTIPROCESS)) \<and>
   (\<forall>kind. sorted_wrt (>) (map fst (filter (\<lambda>r. fst (snd r) = kind_label kind)
              (report (events (notebook gen clock reps tget mget w)))))) \<and>
   (outcome (notebook gen clock reps tget mget w) = (Inr (), Inr ()) \<and> 0 < reps \<longrightarrow>
      map (\<lambda>r. (fst r, fst (snd r))) (report (events (notebook gen clock reps tget mget w)))
        = [(8, ''thread(s)''), (4, ''thread(s)''), (2, ''thread(s)''), (1, ''thread(s)''),
           (8, ''process(es)''), (4, ''process(es)''), (2, ''process(es)''), (1, ''process(es)'')])"
proof -
  let ?rep = "report (events (notebook gen clock reps tget mget w))"
  obtain rs1 rs2 where rep: "?rep = rs1 @ rs2"
    and l1: "\<forall>r \<in> set rs1. fst (snd r) = ''thread(s)''"
    and l2: "\<forall>r \<in> set rs2. fst (snd r) = ''process(es)''"
    and c1: "\<exists>i. map fst rs1 = take i [8, 4, 2, 1]"
    and c2: "\<exists>j. map fst rs2 = take j [8, 4, 2, 1]"
    and full: "outcome (notebook gen clock reps tget mget w) = (Inr (), Inr ()) \<and> 0 < reps
          \<longrightarrow> map fst rs1 = [8, 4, 2, 1] \<and> map fst rs2 = [8, 4, 2, 1]"
    using notebook_rows [of gen clock reps tget mget w]
    by (elim exE conjE) (rule that; (assumption | (rule exI, assumption)))
  have desc: "sorted_wrt (>) [8, 4, 2, 1 :: int]" by simp
  have d1: "sorted_wrt (>) (map fst rs1)"
    using c1 sorted_wrt_take [OF desc] by auto
  have d2: "sorted_wrt (>) (map fst rs2)"
    using c2 sorted_wrt_take [OF desc] by auto
  have grouped: "map (fst \<circ> snd) ?rep
      = replicate (length rs1) (kind_label THREADED) @ replicate (length rs2) (kind_label MULTIPROCESS)"
    using map_label_replicate [OF l1] map_label_replicate [OF l2] by (simp add: rep)
  have sorted: "sorted_wrt (>) (map fst (filter (\<lambda>r. fst (snd r) = kind_label kind) ?rep))" for kind
  proof (cases kind)
    case THREADED
    have "filter (\<lambda>r. fst (snd r) = kind_label kind) ?rep = rs1"
      using filter_label_same [OF l1] filter_label_other [OF l2, of "''thread(s)''"]
      by (simp add: rep THREADED)
    then show ?thesis using d1 by simp
  next
    case MULTIPROCESS
    have "filter (\<lambda>r. fst (snd r) = kind_label kind) ?rep = rs2"
      using filter_label_same [OF l2] filter_label_other [OF l1, of "''process(es)''"]
      by (simp add: rep MULTIPROCESS)
    then show ?thesis using d2 by simp
  qed
  have all: "outcome (notebook gen clock reps tget mget w) = (Inr (), Inr ()) \<and> 0 < reps \<longrightarrow>
      map (\<lambda>r. (fst r, fst (snd r))) ?rep
        = [(8, ''thread(s)''), (4, ''thread(s)''), (2, ''thread(s)''), (1, ''thread(s)''),
           (8, ''process(es)''), (4, ''process(es)''), (2, ''process(es)''), (1, ''process(es)'')]"
  proof
    assume "outcome (notebook gen clock reps tget mget w) = (Inr (), Inr ()) \<and> 0 < reps"
    then have "map fst rs1 = [8, 4, 2, 1]" "map fst rs2 = [8, 4, 2, 1]" using full by simp_all
    then show "map (\<lambda>r. (fst r, fst (snd r))) ?rep
        = [(8, ''thread(s)''), (4, ''thread(s)''), (2, ''thread(s)''), (1, ''thread(s)''),
           (8, ''process(es)''), (4, ''process(es)''), (2, ''process(es)''), (1, ''process(es)'')]"
      using map_count_label [OF l1] map_count_label [OF l2] by (simp add: rep)
  qed
  show ?thesis
  proof (intro conjI)
    show "\<exists>a b. map (fst \<circ> snd) ?rep
        = replicate a (kind_label THREADED) @ replicate b (kind_label MULTIPROCESS)"
      by (intro exI) (rule grouped)
    show "\<forall>kind. sorted_wrt (>) (map fst (filter (\<lambda>r. fst (snd r) = kind_label kind) ?rep))"
      by (rule allI) (rule sorted)
    show "outcome (notebook gen clock reps tget mget w) = (Inr (), Inr ()) \<and> 0 < reps \<longrightarrow>
      map (\<lambda>r. (fst r, fst (snd r))) ?rep
        = [(8, ''thread(s)''), (4, ''thread(s)''), (2, ''thread(s)''), (1, ''thread(s)''),
           (8, ''process(es)''), (4, ''process(es)''), (2, ''process(es)''), (1, ''process(es)'')]"
      by (rule all)
  qed
qed

theorem report_grouped_descending_witness:
  "outcome (notebook sample_generate id 3 sample_get sample_get 0) = (Inr (), Inr ()) \<and> (0::nat) < 3 \<and>
   report (events (notebook sample_generate id 3 sample_get sample_get 0))
     = [(8, ''thread(s)'', 3), (4, ''thread(s)'', 5), (2, ''thread(s)'', 9), (1, ''thread(s)'', 17),
        (8, ''process(es)'', 3), (4, ''process(es)'', 5), (2, ''process(es)'', 9),
        (1, ''process(es)'', 17)] \<and>
   map (\<lambda>r. (fst r, fst (snd r))) (report (events (notebook sample_generate id 3 sample_get sample_get 0)))
     = [(8, ''thread(s)''), (4, ''thread(s)''), (2, ''thread(s)''), (1, ''thread(s)''),
        (8, ''process(es)''), (4, ''process(es)''), (2, ''process(es)''), (1, ''process(es)'')] \<and>
   sorted_wrt (>) (map fst (filter (\<lambda>r. fst (snd r) = kind_label THREADED)
     (report (events (notebook sample_generate id 3 sample_get sample_get 0)))))"
proof -
  have out: "outcome (notebook sample_generate id 3 sample_get sample_get 0) = (Inr (), Inr ())"
    by code_simp
  have rep: "report (events (notebook sample_generate id 3 sample_get sample_get 0))
     = [(8, ''thread(s)'', 3), (4, ''thread(s)'', 5), (2, ''thread(s)'', 9), (1, ''thread(s)'', 17),
        (8, ''process(es)'', 3), (4, ''process(es)'', 5), (2, ''process(es)'', 9),
        (1, ''process(es)'', 17)]"
    by code_simp
  have pos: "(0::nat) < 3" by simp
  note th = report_grouped_descending [of sample_generate id 3 sample_get sample_get 0]
  have sorted: "\<forall>kind. sorted_wrt (>) (map fst (filter (\<lambda>r. fst (snd r) = kind_label kind)
      (report (events (notebook sample_generate id 3 sample_get sample_get 0)))))"
    by (rule conjunct1 [OF conjunct2 [OF th]])
  have full: "map (\<lambda>r. (fst r, fst (snd r)))
      (report (events (notebook sample_generate id 3 sample_get sample_get 0)))
     = [(8, ''thread(s)''), (4, ''thread(s)''), (2, ''thread(s)''), (1, ''thread(s)''),
        (8, ''process(es)''), (4, ''process(es)''), (2, ''process(es)''), (1, ''process(es)'')]"
    by (rule mp [OF conjunct2 [OF conjunct2 [OF th]] conjI [OF out pos]])
  show ?thesis
    by (intro conjI out pos rep full spec [OF sorted])
qed

end
